theory Spec2Isabelle
  imports Main
begin

section \<open>JavaScript values used by the two components\<close>

text \<open>
  A JavaScript string is modelled as a \<^typ>\<open>string\<close>: the list of its code units, restricted
  to the code units below 256.  Strict equality \<^verbatim>\<open>===\<close> on two strings is equality of the
  code unit lists.  A value that is either \<^verbatim>\<open>null\<close>/\<^verbatim>\<open>undefined\<close> or a string is a
  \<^typ>\<open>string option\<close>.
\<close>

text \<open>Truthiness of a string (\<^verbatim>\<open>!s\<close> is its negation): only the empty string is falsy.\<close>

definition truthy :: "string \<Rightarrow> bool" where
  "truthy s = (s \<noteq> [])"

text \<open>Truthiness of a nullable string: \<^verbatim>\<open>null\<close>, \<^verbatim>\<open>undefined\<close> and \<^verbatim>\<open>''\<close> are falsy.\<close>

definition truthy_opt :: "string option \<Rightarrow> bool" where
  "truthy_opt v = (case v of None \<Rightarrow> False | Some s \<Rightarrow> truthy s)"

text \<open>\<^verbatim>\<open>a || b\<close> on a nullable string \<^verbatim>\<open>a\<close> and a string \<^verbatim>\<open>b\<close>.\<close>

definition or_else :: "string option \<Rightarrow> string \<Rightarrow> string" where
  "or_else a b = (case a of None \<Rightarrow> b | Some s \<Rightarrow> if truthy s then s else b)"

text \<open>
  \<^verbatim>\<open>String.prototype.trim\<close> strips white space and line terminators from both ends.
  Below code unit 256 these are TAB, LF, VT, FF, CR, SPACE and NBSP.
\<close>

definition isWhiteSpace :: "char \<Rightarrow> bool" where
  "isWhiteSpace c = (of_char c \<in> {9, 10, 11, 12, 13, 32, 160 :: nat})"

definition trim :: "string \<Rightarrow> string" where
  "trim s = rev (dropWhile isWhiteSpace (rev (dropWhile isWhiteSpace s)))"

text \<open>\<^verbatim>\<open>Array.prototype.find\<close> is \<^const>\<open>List.find\<close>: the first element satisfying the predicate,
  \<^verbatim>\<open>undefined\<close> (\<^const>\<open>None\<close>) when there is none.  \<^verbatim>\<open>arr[0]\<close> is \<^verbatim>\<open>undefined\<close> on an empty
  array.\<close>

definition first_entry :: "'a list \<Rightarrow> 'a option" where
  "first_entry xs = (case xs of [] \<Rightarrow> None | x # _ \<Rightarrow> Some x)"

section \<open>Effects of an event handler\<close>

text \<open>
  The handlers of both components are \<^verbatim>\<open>async\<close> functions that call React state setters,
  \<^verbatim>\<open>console.error\<close>, \<^verbatim>\<open>Alert.alert\<close> and the callbacks injected through the props.  The record
  handed to \<^verbatim>\<open>onCancel\<close> (CancelJobModal.js, lines 51-56) is a \<open>cancellation_record\<close>;
  \<open>reasonText\<close> is nullable because \<^verbatim>\<open>find(...)?.label\<close> can be \<^verbatim>\<open>undefined\<close>.
\<close>

record cancellation_record =
  reason :: string
  reasonText :: "string option"
  cancelledBy :: string
  cancelledAt :: string

text \<open>An invocation of an injected callback, with its argument.\<close>

datatype call =
    OnUpdateStatus string
  | OnCancel cancellation_record
  | OnClose

text \<open>How an invoked callback ends: its promise resolves (or, for a synchronous callback,
  it returns), or its promise rejects (or it throws).\<close>

datatype settled = Resolved | Rejected

text \<open>
  What a handler does that is visible outside its own frame, in program order.
  \<open>ConsoleError\<close> carries the message only (the second argument is the caught error).
\<close>

datatype event =
    SetLoading bool
  | SetSelectedStatus string
  | SetShowHistory bool
  | SetSelectedReason "string option"
  | SetOtherReason string
  | ConsoleError string
  | AlertAlert string string
  | Called call

text \<open>
  The body of a handler as a resumable computation.  \<open>Return\<close> is normal completion,
  \<open>Throw\<close> is abrupt completion by an exception, \<open>Emit\<close> performs one effect that cannot
  throw, \<open>Invoke\<close> calls an injected callback synchronously and \<open>Await\<close> calls an injected
  callback and awaits the promise it returns; both continue according to how the call ends.
\<close>

datatype proc =
    Return
  | Throw
  | Emit event proc
  | Invoke call "settled \<Rightarrow> proc"
  | Await call "settled \<Rightarrow> proc"

text \<open>Sequential composition \<^verbatim>\<open>p; q\<close>: an exception in \<open>p\<close> skips \<open>q\<close>.\<close>

primrec seq :: "proc \<Rightarrow> proc \<Rightarrow> proc" where
  "seq Return q = q"
| "seq Throw q = Throw"
| "seq (Emit e p) q = Emit e (seq p q)"
| "seq (Invoke c k) q = Invoke c (\<lambda>r. seq (k r) q)"
| "seq (Await c k) q = Await c (\<lambda>r. seq (k r) q)"

text \<open>\<^verbatim>\<open>try { p } catch (error) { h }\<close>: the handler \<open>h\<close> runs exactly when \<open>p\<close> throws.\<close>

primrec try_catch :: "proc \<Rightarrow> proc \<Rightarrow> proc" where
  "try_catch Return h = Return"
| "try_catch Throw h = h"
| "try_catch (Emit e p) h = Emit e (try_catch p h)"
| "try_catch (Invoke c k) h = Invoke c (\<lambda>r. try_catch (k r) h)"
| "try_catch (Await c k) h = Await c (\<lambda>r. try_catch (k r) h)"

text \<open>\<^verbatim>\<open>try { p } finally { f }\<close>: \<open>f\<close> runs on both exits of \<open>p\<close>; after an exception in \<open>p\<close>
  the exception is thrown again once \<open>f\<close> has completed.\<close>

primrec try_finally :: "proc \<Rightarrow> proc \<Rightarrow> proc" where
  "try_finally Return f = f"
| "try_finally Throw f = seq f Throw"
| "try_finally (Emit e p) f = Emit e (try_finally p f)"
| "try_finally (Invoke c k) f = Invoke c (\<lambda>r. try_finally (k r) f)"
| "try_finally (Await c k) f = Await c (\<lambda>r. try_finally (k r) f)"

definition try_catch_finally :: "proc \<Rightarrow> proc \<Rightarrow> proc \<Rightarrow> proc" where
  "try_catch_finally p h f = try_finally (try_catch p h) f"

text \<open>A statement list.\<close>

fun block :: "proc list \<Rightarrow> proc" where
  "block [] = Return"
| "block (p # ps) = seq p (block ps)"

definition emit :: "event \<Rightarrow> proc" where
  "emit e = Emit e Return"

text \<open>\<^verbatim>\<open>f(x)\<close> for an injected \<open>f\<close>: returns, or throws.\<close>

definition invoke :: "call \<Rightarrow> proc" where
  "invoke c = Invoke c (\<lambda>r. case r of Resolved \<Rightarrow> Return | Rejected \<Rightarrow> Throw)"

text \<open>\<^verbatim>\<open>await f(x)\<close> for an injected \<open>f\<close>: continues when the promise resolves, throws when
  it rejects (a synchronous exception of \<open>f\<close> takes the same path as a rejection).\<close>

definition await :: "call \<Rightarrow> proc" where
  "await c = Await c (\<lambda>r. case r of Resolved \<Rightarrow> Return | Rejected \<Rightarrow> Throw)"

subsection \<open>Running a handler against its environment\<close>

text \<open>
  The environment answers every invocation of an injected callback: \<open>Some Resolved\<close>,
  \<open>Some Rejected\<close>, or \<open>None\<close> when the call never settles (the promise stays pending,
  and the handler never gets past the call).
\<close>

type_synonym env = "call \<Rightarrow> settled option"

datatype completion = Completed | Uncaught | Pending

text \<open>The trace of a handler run from its start to its end, or to the call that never
  settles.\<close>

primrec run :: "env \<Rightarrow> proc \<Rightarrow> event list \<times> completion" where
  "run env Return = ([], Completed)"
| "run env Throw = ([], Uncaught)"
| "run env (Emit e p) = (let (es, c) = run env p in (e # es, c))"
| "run env (Invoke c k) =
     (case env c of
        None \<Rightarrow> ([Called c], Pending)
      | Some r \<Rightarrow> (let (es, d) = run env (k r) in (Called c # es, d)))"
| "run env (Await c k) =
     (case env c of
        None \<Rightarrow> ([Called c], Pending)
      | Some r \<Rightarrow> (let (es, d) = run env (k r) in (Called c # es, d)))"

definition trace :: "env \<Rightarrow> proc \<Rightarrow> event list" where
  "trace env p = fst (run env p)"

definition outcome :: "env \<Rightarrow> proc \<Rightarrow> completion" where
  "outcome env p = snd (run env p)"

text \<open>The callbacks invoked during a trace, in order.\<close>

fun calls :: "event list \<Rightarrow> call list" where
  "calls [] = []"
| "calls (Called c # es) = c # calls es"
| "calls (e # es) = calls es"

section \<open>PaymentStatusTracker.js\<close>

subsection \<open>Data\<close>

record payment_status =
  status_id :: string
  status_label :: string
  status_color :: string

definition PAYMENT_STATUSES :: "payment_status list" where
  "PAYMENT_STATUSES =
    [\<lparr>status_id = ''unpaid'', status_label = ''Unpaid'', status_color = ''#f44336''\<rparr>,
     \<lparr>status_id = ''pending'', status_label = ''Payment Pending'', status_color = ''#ff9800''\<rparr>,
     \<lparr>status_id = ''partial'', status_label = ''Partially Paid'', status_color = ''#2196f3''\<rparr>,
     \<lparr>status_id = ''paid'', status_label = ''Paid'', status_color = ''#4caf50''\<rparr>,
     \<lparr>status_id = ''refunded'', status_label = ''Refunded'', status_color = ''#9c27b0''\<rparr>]"

text \<open>An entry of \<^verbatim>\<open>paymentHistory\<close>.  \<open>amount\<close> and \<open>note_text\<close> (the source's \<^verbatim>\<open>note\<close>) are
  absent from some entries; an amount is carried as a string (it is passed to \<^verbatim>\<open>parseFloat\<close>).\<close>

record history_item =
  status :: string
  date :: string
  amount :: "string option"
  note_text :: "string option"

text \<open>The props (\<^verbatim>\<open>onUpdateStatus\<close> is part of the environment), with the defaults of the
  parameter list applied by the caller of the model.\<close>

record pst_props =
  requestId :: string
  currentStatus :: string
  paymentHistory :: "history_item list"
  isMechanic :: bool

text \<open>The three \<^verbatim>\<open>useState\<close> cells (lines 35-37).\<close>

record pst_state =
  loading :: bool
  selectedStatus :: string
  showHistory :: bool

definition pst_initial :: "pst_props \<Rightarrow> pst_state" where
  "pst_initial props =
     \<lparr>loading = False, selectedStatus = currentStatus props, showHistory = False\<rparr>"

text \<open>The effect of one state setter on the cells; the other events leave them alone.\<close>

fun pst_apply :: "pst_state \<Rightarrow> event \<Rightarrow> pst_state" where
  "pst_apply st (SetLoading b) = st\<lparr>loading := b\<rparr>"
| "pst_apply st (SetSelectedStatus s) = st\<lparr>selectedStatus := s\<rparr>"
| "pst_apply st (SetShowHistory b) = st\<lparr>showHistory := b\<rparr>"
| "pst_apply st e = st"

definition pst_after :: "pst_state \<Rightarrow> event list \<Rightarrow> pst_state" where
  "pst_after st es = foldl pst_apply st es"

subsection \<open>Handlers\<close>

text \<open>Lines 42-55.\<close>

definition handleUpdateStatus :: "pst_props \<Rightarrow> string \<Rightarrow> proc" where
  "handleUpdateStatus props newStatus =
     (if newStatus = currentStatus props then Return
      else block
        [emit (SetLoading True),
         try_catch_finally
           (block
             [await (OnUpdateStatus newStatus),
              emit (SetSelectedStatus newStatus)])
           (block
             [emit (ConsoleError ''Error updating payment status:''),
              emit (AlertAlert ''Error'' ''Failed to update payment status'')])
           (emit (SetLoading False))])"

text \<open>Lines 57-69.\<close>

definition handleSendReminder :: proc where
  "handleSendReminder =
     block
       [emit (SetLoading True),
        try_catch_finally
          (emit (AlertAlert ''Success'' ''Payment reminder sent to customer''))
          (block
            [emit (ConsoleError ''Error sending payment reminder:''),
             emit (AlertAlert ''Error'' ''Failed to send payment reminder'')])
          (emit (SetLoading False))]"

text \<open>Line 130: \<^verbatim>\<open>() => setShowHistory(!showHistory)\<close>.\<close>

definition toggleHistory :: "pst_state \<Rightarrow> proc" where
  "toggleHistory st = emit (SetShowHistory (\<not> showHistory st))"

subsection \<open>Rendering\<close>

datatype js_error = TypeError

text \<open>Line 40: \<^verbatim>\<open>PAYMENT_STATUSES.find(s => s.id === currentStatus) || PAYMENT_STATUSES[0]\<close>
  (an object is truthy, \<^verbatim>\<open>undefined\<close> is not).\<close>

definition statusObj :: "pst_props \<Rightarrow> payment_status option" where
  "statusObj props =
     (case find (\<lambda>s. status_id s = currentStatus props) PAYMENT_STATUSES of
        Some s \<Rightarrow> Some s
      | None \<Rightarrow> first_entry PAYMENT_STATUSES)"

text \<open>Lines 80-82: the badge reads \<^verbatim>\<open>statusObj.color\<close> and \<^verbatim>\<open>statusObj.label\<close>, which throws
  when \<^verbatim>\<open>statusObj\<close> is \<^verbatim>\<open>undefined\<close>.  The result is the background colour and the text.\<close>

definition statusBadge :: "pst_props \<Rightarrow> js_error + string \<times> string" where
  "statusBadge props =
     (case statusObj props of
        None \<Rightarrow> Inl TypeError
      | Some s \<Rightarrow> Inr (status_color s, status_label s))"

text \<open>Line 99: \<^verbatim>\<open>disabled={loading || currentStatus === status.id}\<close>.\<close>

definition statusOption_disabled :: "pst_props \<Rightarrow> pst_state \<Rightarrow> payment_status \<Rightarrow> bool" where
  "statusOption_disabled props st s = (loading st \<or> currentStatus props = status_id s)"

text \<open>Lines 96 and 104: the chip carrying the check mark.\<close>

definition statusOption_selected :: "pst_state \<Rightarrow> payment_status \<Rightarrow> bool" where
  "statusOption_selected st s = (selectedStatus st = status_id s)"

text \<open>Lines 85 and 111-115.\<close>

definition reminderButton_rendered :: "pst_props \<Rightarrow> bool" where
  "reminderButton_rendered props =
     (isMechanic props \<and> (currentStatus props = ''unpaid'' \<or> currentStatus props = ''partial''))"

definition reminderButton_disabled :: "pst_state \<Rightarrow> bool" where
  "reminderButton_disabled st = loading st"

text \<open>
  The platform functions the history list calls: \<^verbatim>\<open>new Date(s)\<close>, the two locale formatters
  of a \<^verbatim>\<open>Date\<close>, and \<^verbatim>\<open>parseFloat(a).toFixed(2)\<close>.  Their results depend on the locale and on
  floating point, so they are parameters of the model.
\<close>

record 'd platform =
  newDate :: "string \<Rightarrow> 'd"
  toLocaleDateString :: "'d \<Rightarrow> string"
  toLocaleTimeString :: "'d \<Rightarrow> string"
  parseFloat_toFixed2 :: "string \<Rightarrow> string"

text \<open>Lines 71-74.\<close>

definition formatDate :: "'d platform \<Rightarrow> string \<Rightarrow> string" where
  "formatDate pf dateString =
     (let date = newDate pf dateString
      in toLocaleDateString pf date @ '' '' @ toLocaleTimeString pf date)"

text \<open>Line 146: \<^verbatim>\<open>PAYMENT_STATUSES.find(s => s.id === item.status)?.label || item.status\<close>.\<close>

definition historyItemStatus :: "history_item \<Rightarrow> string" where
  "historyItemStatus item =
     or_else
       (map_option status_label (find (\<lambda>s. status_id s = status item) PAYMENT_STATUSES))
       (status item)"

text \<open>One rendered history entry (lines 143-158): its React key and the texts of its
  children; the amount and the note are rendered only when truthy.\<close>

record history_view =
  key :: nat
  historyItemStatus_text :: string
  historyItemDate_text :: string
  historyItemAmount_text :: "string option"
  historyItemNote_text :: "string option"

definition historyItem :: "'d platform \<Rightarrow> nat \<times> history_item \<Rightarrow> history_view" where
  "historyItem pf ii =
     (case ii of (index, item) \<Rightarrow>
       \<lparr>key = index,
        historyItemStatus_text = historyItemStatus item,
        historyItemDate_text = formatDate pf (date item),
        historyItemAmount_text =
          (if truthy_opt (amount item)
           then map_option (\<lambda>a. ''$'' @ parseFloat_toFixed2 pf a) (amount item) else None),
        historyItemNote_text =
          (if truthy_opt (note_text item) then note_text item else None)\<rparr>)"

text \<open>Line 142: \<^verbatim>\<open>paymentHistory.map((item, index) => ...)\<close>.\<close>

definition historyList :: "'d platform \<Rightarrow> pst_props \<Rightarrow> history_view list" where
  "historyList pf props = map (historyItem pf) (enumerate 0 (paymentHistory props))"

text \<open>Lines 126 and 140: when the list is on screen.\<close>

definition historyList_rendered :: "pst_props \<Rightarrow> pst_state \<Rightarrow> bool" where
  "historyList_rendered props st = (length (paymentHistory props) > 0 \<and> showHistory st)"

section \<open>CancelJobModal.js\<close>

subsection \<open>Data\<close>

record cancel_reason =
  reason_id :: string
  reason_label :: string

definition CANCEL_REASONS :: "cancel_reason list" where
  "CANCEL_REASONS =
    [\<lparr>reason_id = ''schedule_conflict'', reason_label = ''Schedule Conflict''\<rparr>,
     \<lparr>reason_id = ''found_another_mechanic'', reason_label = ''Found Another Mechanic''\<rparr>,
     \<lparr>reason_id = ''no_longer_needed'', reason_label = ''Service No Longer Needed''\<rparr>,
     \<lparr>reason_id = ''cost_concerns'', reason_label = ''Cost Concerns''\<rparr>,
     \<lparr>reason_id = ''vehicle_fixed'', reason_label = ''Vehicle Fixed by Other Means''\<rparr>,
     \<lparr>reason_id = ''other'', reason_label = ''Other Reason''\<rparr>]"

text \<open>The props (\<^verbatim>\<open>onClose\<close> and \<^verbatim>\<open>onCancel\<close> are part of the environment).\<close>

record cjm_props =
  visible :: bool
  isCustomer :: bool

text \<open>The three \<^verbatim>\<open>useState\<close> cells (lines 31-33); \<open>busy\<close> is the modal's \<^verbatim>\<open>loading\<close>.\<close>

record cjm_state =
  selectedReason :: "string option"
  otherReason :: string
  busy :: bool

definition cjm_initial :: cjm_state where
  "cjm_initial = \<lparr>selectedReason = None, otherReason = [], busy = False\<rparr>"

fun cjm_apply :: "cjm_state \<Rightarrow> event \<Rightarrow> cjm_state" where
  "cjm_apply st (SetLoading b) = st\<lparr>busy := b\<rparr>"
| "cjm_apply st (SetSelectedReason r) = st\<lparr>selectedReason := r\<rparr>"
| "cjm_apply st (SetOtherReason t) = st\<lparr>otherReason := t\<rparr>"
| "cjm_apply st e = st"

definition cjm_after :: "cjm_state \<Rightarrow> event list \<Rightarrow> cjm_state" where
  "cjm_after st es = foldl cjm_apply st es"

subsection \<open>Handlers\<close>

text \<open>Lines 51-56, for the selected reason \<open>r\<close>; \<open>now\<close> is the value of
  \<^verbatim>\<open>new Date().toISOString()\<close> when the handler runs.\<close>

definition cancellationData ::
  "cjm_props \<Rightarrow> cjm_state \<Rightarrow> string \<Rightarrow> string \<Rightarrow> cancellation_record" where
  "cancellationData props st r now =
     \<lparr>reason = r,
      reasonText =
        (if r = ''other'' then Some (otherReason st)
         else map_option reason_label (find (\<lambda>x. reason_id x = r) CANCEL_REASONS)),
      cancelledBy = (if isCustomer props then ''customer'' else ''mechanic''),
      cancelledAt = now\<rparr>"

text \<open>Lines 35-71.\<close>

definition handleCancel :: "cjm_props \<Rightarrow> cjm_state \<Rightarrow> string \<Rightarrow> proc" where
  "handleCancel props st now =
     (case selectedReason st of
        None \<Rightarrow> emit (AlertAlert ''Error'' ''Please select a cancellation reason'')
      | Some r \<Rightarrow>
          if \<not> truthy r then
            emit (AlertAlert ''Error'' ''Please select a cancellation reason'')
          else if r = ''other'' \<and> \<not> truthy (trim (otherReason st)) then
            emit (AlertAlert ''Error'' ''Please provide details for your cancellation reason'')
          else block
            [emit (SetLoading True),
             try_catch_finally
               (block
                 [await (OnCancel (cancellationData props st r now)),
                  emit (SetSelectedReason None),
                  emit (SetOtherReason []),
                  invoke OnClose])
               (block
                 [emit (ConsoleError ''Error cancelling job:''),
                  emit (AlertAlert ''Error'' ''Failed to cancel job. Please try again.'')])
               (emit (SetLoading False))])"

text \<open>Lines 73-77.\<close>

definition resetAndClose :: proc where
  "resetAndClose =
     block [emit (SetSelectedReason None), emit (SetOtherReason []), invoke OnClose]"

text \<open>Line 105: \<^verbatim>\<open>() => setSelectedReason(reason.id)\<close>, and line 123:
  \<^verbatim>\<open>onChangeText={setOtherReason}\<close>.\<close>

definition selectReason :: "cancel_reason \<Rightarrow> proc" where
  "selectReason r = emit (SetSelectedReason (Some (reason_id r)))"

definition onChangeText :: "string \<Rightarrow> proc" where
  "onChangeText t = emit (SetOtherReason t)"

subsection \<open>Rendering\<close>

text \<open>Line 150.\<close>

definition confirmButton_disabled :: "cjm_state \<Rightarrow> bool" where
  "confirmButton_disabled st =
     (busy st \<or> \<not> truthy_opt (selectedReason st)
      \<or> (selectedReason st = Some ''other'' \<and> \<not> truthy (trim (otherReason st))))"

text \<open>Line 119: the free-text input is on screen.\<close>

definition otherReasonInput_rendered :: "cjm_state \<Rightarrow> bool" where
  "otherReasonInput_rendered st = (selectedReason st = Some ''other'')"

section \<open>The components between renders\<close>

text \<open>
  JavaScript runs a handler without interruption up to its \<^verbatim>\<open>await\<close>, and again from the
  settlement of the awaited promise on.  Between these segments the component is idle: it
  can be rendered, and any other handler can start.  A configuration is what exists at such
  a moment: the state cells, and the continuations of the handlers suspended at their
  \<^verbatim>\<open>await\<close>, one for each call in flight.
\<close>

type_synonym 's config = "'s \<times> (settled \<Rightarrow> proc) list"

text \<open>One uninterrupted segment: the events up to the end of the handler or to its
  \<^verbatim>\<open>await\<close>, and the continuation in the second case.  \<open>cb\<close> answers the synchronous calls.\<close>

primrec sync_run :: "(call \<Rightarrow> settled) \<Rightarrow> proc \<Rightarrow> event list \<times> (settled \<Rightarrow> proc) option" where
  "sync_run cb Return = ([], None)"
| "sync_run cb Throw = ([], None)"
| "sync_run cb (Emit e p) = (let (es, k) = sync_run cb p in (e # es, k))"
| "sync_run cb (Invoke c k) = (let (es, k') = sync_run cb (k (cb c)) in (Called c # es, k'))"
| "sync_run cb (Await c k) = ([Called c], Some k)"

text \<open>Starting a handler: its first segment updates the cells; a handler that reaches its
  \<^verbatim>\<open>await\<close> joins the calls in flight.\<close>

definition start ::
  "('s \<Rightarrow> event \<Rightarrow> 's) \<Rightarrow> (call \<Rightarrow> settled) \<Rightarrow> proc \<Rightarrow> 's config \<Rightarrow> 's config" where
  "start app cb p cfg =
     (case sync_run cb p of (es, k) \<Rightarrow>
        (foldl app (fst cfg) es, snd cfg @ (case k of None \<Rightarrow> [] | Some k' \<Rightarrow> [k'])))"

text \<open>The \<open>i\<close>-th call in flight settles with \<open>r\<close>: its handler leaves the calls in flight and
  runs its next segment.\<close>

definition settle ::
  "('s \<Rightarrow> event \<Rightarrow> 's) \<Rightarrow> (call \<Rightarrow> settled) \<Rightarrow> nat \<Rightarrow> settled \<Rightarrow> 's config \<Rightarrow> 's config" where
  "settle app cb i r cfg =
     (if i < length (snd cfg)
      then start app cb ((snd cfg ! i) r) (fst cfg, take i (snd cfg) @ drop (Suc i) (snd cfg))
      else cfg)"

subsection \<open>PaymentStatusTracker\<close>

text \<open>
  What can happen to a mounted tracker: a status chip is pressed (under the props of the
  current render), the reminder button is pressed, the history header is pressed, or a
  pending \<^verbatim>\<open>onUpdateStatus\<close> call settles.  The \<^verbatim>\<open>disabled\<close> attributes are not applied here:
  every handler may start at any time, which includes every sequence the rendered controls
  allow.  No handler of the tracker makes a synchronous call.
\<close>

datatype pst_input =
    PressStatus pst_props string
  | PressReminder
  | PressHistory
  | SettleUpdate nat settled

fun pst_step :: "pst_state config \<Rightarrow> pst_input \<Rightarrow> pst_state config" where
  "pst_step cfg (PressStatus props newStatus) =
     start pst_apply (\<lambda>c. Resolved) (handleUpdateStatus props newStatus) cfg"
| "pst_step cfg PressReminder = start pst_apply (\<lambda>c. Resolved) handleSendReminder cfg"
| "pst_step cfg PressHistory = start pst_apply (\<lambda>c. Resolved) (toggleHistory (fst cfg)) cfg"
| "pst_step cfg (SettleUpdate i r) = settle pst_apply (\<lambda>c. Resolved) i r cfg"

definition pst_exec :: "pst_props \<Rightarrow> pst_input list \<Rightarrow> pst_state config" where
  "pst_exec props ins = foldl pst_step (pst_initial props, []) ins"

subsection \<open>CancelJobModal\<close>

text \<open>
  What can happen to a mounted modal: a reason of the list is pressed, the free text is
  edited, the confirm button is pressed, the modal is closed (\<^verbatim>\<open>resetAndClose\<close>), or a
  pending \<^verbatim>\<open>onCancel\<close> call settles.  \<open>PressClose\<close> and \<open>SettleCancel\<close> carry how \<^verbatim>\<open>onClose\<close> ends
  if the segment calls it.
\<close>

datatype cjm_input =
    SelectReason cancel_reason
  | ChangeText string
  | PressConfirm cjm_props string
  | PressClose settled
  | SettleCancel nat settled settled

fun cjm_step :: "cjm_state config \<Rightarrow> cjm_input \<Rightarrow> cjm_state config" where
  "cjm_step cfg (SelectReason r) =
     (if r \<in> set CANCEL_REASONS
      then start cjm_apply (\<lambda>c. Resolved) (selectReason r) cfg else cfg)"
| "cjm_step cfg (ChangeText t) = start cjm_apply (\<lambda>c. Resolved) (onChangeText t) cfg"
| "cjm_step cfg (PressConfirm props now) =
     start cjm_apply (\<lambda>c. Resolved) (handleCancel props (fst cfg) now) cfg"
| "cjm_step cfg (PressClose closed) = start cjm_apply (\<lambda>c. closed) resetAndClose cfg"
| "cjm_step cfg (SettleCancel i r closed) = settle cjm_apply (\<lambda>c. closed) i r cfg"

definition cjm_exec :: "cjm_input list \<Rightarrow> cjm_state config" where
  "cjm_exec ins = foldl cjm_step (cjm_initial, []) ins"

section \<open>Auxiliary notions\<close>

text \<open>The environment in which every call ends the same way.\<close>

definition answer_all :: "settled \<Rightarrow> env" where
  "answer_all r c = Some r"

text \<open>A continuation that, however its call settles, runs to the end of its handler
  without a further \<^verbatim>\<open>await\<close> and finishes by clearing the busy flag.\<close>

definition clears :: "(settled \<Rightarrow> proc) \<Rightarrow> bool" where
  "clears k =
     (\<forall>r cb. snd (sync_run cb (k r)) = None \<and> fst (sync_run cb (k r)) \<noteq> []
        \<and> last (fst (sync_run cb (k r))) = SetLoading False)"

text \<open>A segment that never selects a reason.\<close>

definition resets_only :: "event list \<Rightarrow> bool" where
  "resets_only es = (\<forall>v. SetSelectedReason (Some v) \<notin> set es)"

text \<open>The selected reason is \<^verbatim>\<open>null\<close> or an id of the list.\<close>

definition reason_ok :: "string option \<Rightarrow> bool" where
  "reason_ok v = (case v of None \<Rightarrow> True | Some r \<Rightarrow> r \<in> set (map reason_id CANCEL_REASONS))"

definition pst_inv :: "pst_state config \<Rightarrow> bool" where
  "pst_inv cfg = ((\<forall>k \<in> set (snd cfg). clears k) \<and> (snd cfg = [] \<longrightarrow> \<not> loading (fst cfg)))"

definition cjm_inv :: "cjm_state config \<Rightarrow> bool" where
  "cjm_inv cfg =
     ((\<forall>k \<in> set (snd cfg). clears k \<and> (\<forall>r cb. resets_only (fst (sync_run cb (k r)))))
      \<and> (snd cfg = [] \<longrightarrow> \<not> busy (fst cfg))
      \<and> reason_ok (selectedReason (fst cfg)))"

text \<open>The condition of section 4.3 of the specification under which a cancellation cannot
  be submitted: no reason is selected, or the reason is \<^verbatim>\<open>other\<close> and the free text is empty
  after trimming.\<close>

definition no_valid_reason :: "cjm_state \<Rightarrow> bool" where
  "no_valid_reason st =
     (selectedReason st = None
      \<or> (selectedReason st = Some ''other'' \<and> trim (otherReason st) = []))"

subsection \<open>Example inputs\<close>

text \<open>A tracker on an unpaid request whose history is listed newest first and names a
  status that is not in the list of payment statuses.\<close>

definition example_tracker :: pst_props where
  "example_tracker =
     \<lparr>requestId = ''req-1'', currentStatus = ''unpaid'',
      paymentHistory =
        [\<lparr>status = ''paid'', date = ''2024-03-02T10:15:00'', amount = Some ''120.5'',
          note_text = None\<rparr>,
         \<lparr>status = ''overdue'', date = ''2024-03-01T09:30:00'', amount = None,
          note_text = Some ''reminder sent''\<rparr>],
      isMechanic = True\<rparr>"

text \<open>A platform that keeps a date as its text and prints the date and the time parts of
  it.\<close>

definition example_platform :: "string platform" where
  "example_platform =
     \<lparr>newDate = (\<lambda>s. s), toLocaleDateString = take 10,
      toLocaleTimeString = (\<lambda>d. take 8 (drop 11 d)), parseFloat_toFixed2 = (\<lambda>a. a)\<rparr>"

definition example_modal :: cjm_props where
  "example_modal = \<lparr>visible = True, isCustomer = True\<rparr>"

definition example_now :: string where
  "example_now = ''2024-03-02T10:15:00.000Z''"

text \<open>The modal after \<^verbatim>\<open>Cost Concerns\<close> has been pressed, after \<^verbatim>\<open>Other Reason\<close> has been
  pressed and a text typed, and after \<^verbatim>\<open>Other Reason\<close> has been pressed and two blanks typed.\<close>

definition example_cost_selected :: "cjm_input list" where
  "example_cost_selected =
     [SelectReason \<lparr>reason_id = ''cost_concerns'', reason_label = ''Cost Concerns''\<rparr>]"

definition example_other_filled :: "cjm_input list" where
  "example_other_filled =
     [SelectReason \<lparr>reason_id = ''other'', reason_label = ''Other Reason''\<rparr>,
      ChangeText ''moving abroad'']"

definition example_other_blank :: "cjm_input list" where
  "example_other_blank =
     [SelectReason \<lparr>reason_id = ''other'', reason_label = ''Other Reason''\<rparr>,
      ChangeText ''  '']"

section \<open>Traces of the handlers\<close>

lemmas proc_defs = try_catch_finally_def emit_def await_def invoke_def

lemma run_handleUpdateStatus:
  "run env (handleUpdateStatus props s) =
    (if s = currentStatus props then ([], Completed)
     else case env (OnUpdateStatus s) of
       None \<Rightarrow> ([SetLoading True, Called (OnUpdateStatus s)], Pending)
     | Some Resolved \<Rightarrow>
         ([SetLoading True, Called (OnUpdateStatus s), SetSelectedStatus s, SetLoading False],
          Completed)
     | Some Rejected \<Rightarrow>
         ([SetLoading True, Called (OnUpdateStatus s),
           ConsoleError ''Error updating payment status:'',
           AlertAlert ''Error'' ''Failed to update payment status'', SetLoading False],
          Completed))"
  by (simp add: handleUpdateStatus_def proc_defs split: option.splits settled.splits)

lemma run_handleSendReminder:
  "run env handleSendReminder =
     ([SetLoading True, AlertAlert ''Success'' ''Payment reminder sent to customer'',
       SetLoading False], Completed)"
  by (simp add: handleSendReminder_def proc_defs)

lemma run_handleCancel_unselected:
  "\<not> truthy_opt (selectedReason st) \<Longrightarrow>
     run env (handleCancel props st now) =
       ([AlertAlert ''Error'' ''Please select a cancellation reason''], Completed)"
  by (cases "selectedReason st") (simp_all add: handleCancel_def proc_defs truthy_opt_def)

lemma run_handleCancel_blank:
  "selectedReason st = Some ''other'' \<Longrightarrow> \<not> truthy (trim (otherReason st)) \<Longrightarrow>
     run env (handleCancel props st now) =
       ([AlertAlert ''Error'' ''Please provide details for your cancellation reason''],
        Completed)"
  by (simp add: handleCancel_def proc_defs truthy_def)

lemma run_handleCancel_valid:
  "selectedReason st = Some r \<Longrightarrow> truthy r \<Longrightarrow>
   r = ''other'' \<longrightarrow> truthy (trim (otherReason st)) \<Longrightarrow>
     run env (handleCancel props st now) =
       (case env (OnCancel (cancellationData props st r now)) of
          None \<Rightarrow> ([SetLoading True, Called (OnCancel (cancellationData props st r now))], Pending)
        | Some Rejected \<Rightarrow>
            ([SetLoading True, Called (OnCancel (cancellationData props st r now)),
              ConsoleError ''Error cancelling job:'',
              AlertAlert ''Error'' ''Failed to cancel job. Please try again.'',
              SetLoading False], Completed)
        | Some Resolved \<Rightarrow>
            (case env OnClose of
               None \<Rightarrow>
                 ([SetLoading True, Called (OnCancel (cancellationData props st r now)),
                   SetSelectedReason None, SetOtherReason [], Called OnClose], Pending)
             | Some Resolved \<Rightarrow>
                 ([SetLoading True, Called (OnCancel (cancellationData props st r now)),
                   SetSelectedReason None, SetOtherReason [], Called OnClose,
                   SetLoading False], Completed)
             | Some Rejected \<Rightarrow>
                 ([SetLoading True, Called (OnCancel (cancellationData props st r now)),
                   SetSelectedReason None, SetOtherReason [], Called OnClose,
                   ConsoleError ''Error cancelling job:'',
                   AlertAlert ''Error'' ''Failed to cancel job. Please try again.'',
                   SetLoading False], Completed)))"
  by (auto simp add: handleCancel_def proc_defs split: option.splits settled.splits)

section \<open>Invariants of the idle configurations\<close>

lemma sync_handleUpdateStatus:
  "s \<noteq> currentStatus props \<Longrightarrow>
     \<exists>k. sync_run cb (handleUpdateStatus props s) =
            ([SetLoading True, Called (OnUpdateStatus s)], Some k) \<and> clears k"
  by (simp add: handleUpdateStatus_def proc_defs clears_def split: settled.splits)

lemma sync_handleUpdateStatus_same:
  "sync_run cb (handleUpdateStatus props (currentStatus props)) = ([], None)"
  by (simp add: handleUpdateStatus_def)

lemma sync_handleSendReminder:
  "sync_run cb handleSendReminder =
     ([SetLoading True, AlertAlert ''Success'' ''Payment reminder sent to customer'',
       SetLoading False], None)"
  by (simp add: handleSendReminder_def proc_defs)

lemma loading_last:
  "es \<noteq> [] \<Longrightarrow> last es = SetLoading False \<Longrightarrow> \<not> loading (foldl pst_apply st es)"
  by (induction es arbitrary: st rule: rev_induct) auto

lemma remaining_subset: "set (take n ks @ drop (Suc n) ks) \<subseteq> set ks"
  using set_take_subset set_drop_subset by fastforce

lemma pst_inv_step: "pst_inv cfg \<Longrightarrow> pst_inv (pst_step cfg i)"
proof (cases i)
  case (PressStatus props s)
  assume inv: "pst_inv cfg"
  show ?thesis
  proof (cases "s = currentStatus props")
    case True
    with inv PressStatus show ?thesis
      by (simp add: start_def sync_handleUpdateStatus_same pst_inv_def)
  next
    case False
    from sync_handleUpdateStatus[OF False, of "\<lambda>c. Resolved"] obtain k where
      "sync_run (\<lambda>c. Resolved) (handleUpdateStatus props s) =
         ([SetLoading True, Called (OnUpdateStatus s)], Some k)" "clears k"
      by blast
    with inv PressStatus show ?thesis
      by (auto simp add: start_def pst_inv_def)
  qed
next
  case PressReminder
  assume "pst_inv cfg"
  with PressReminder show ?thesis
    by (auto simp add: start_def pst_inv_def sync_handleSendReminder)
next
  case PressHistory
  assume "pst_inv cfg"
  with PressHistory show ?thesis
    by (auto simp add: start_def pst_inv_def toggleHistory_def emit_def)
next
  case (SettleUpdate n r)
  assume inv: "pst_inv cfg"
  show ?thesis
  proof (cases "n < length (snd cfg)")
    case False
    with inv SettleUpdate show ?thesis by (simp add: settle_def)
  next
    case True
    then have "snd cfg ! n \<in> set (snd cfg)" by simp
    with inv have c: "clears (snd cfg ! n)" by (simp add: pst_inv_def)
    obtain es k where sr: "sync_run (\<lambda>c. Resolved) ((snd cfg ! n) r) = (es, k)"
      by (cases "sync_run (\<lambda>c. Resolved) ((snd cfg ! n) r)")
    with c have k: "k = None" and es: "es \<noteq> []" "last es = SetLoading False"
      unfolding clears_def by (metis fst_conv snd_conv)+
    from inv remaining_subset[of n "snd cfg"] True SettleUpdate sr k loading_last[OF es]
    show ?thesis
      by (auto simp add: settle_def start_def pst_inv_def)
  qed
qed

lemma pst_inv_foldl: "pst_inv cfg \<Longrightarrow> pst_inv (foldl pst_step cfg ins)"
  by (induction ins arbitrary: cfg) (auto simp: pst_inv_step)

lemma pst_inv_exec: "pst_inv (pst_exec props ins)"
  unfolding pst_exec_def by (rule pst_inv_foldl) (simp add: pst_inv_def pst_initial_def)

lemma sync_resetAndClose:
  "sync_run cb resetAndClose = ([SetSelectedReason None, SetOtherReason [], Called OnClose], None)"
  by (simp add: resetAndClose_def proc_defs split: settled.splits)

lemma busy_last:
  "es \<noteq> [] \<Longrightarrow> last es = SetLoading False \<Longrightarrow> \<not> busy (foldl cjm_apply st es)"
  by (induction es arbitrary: st rule: rev_induct) auto

lemma reason_ok_foldl:
  "resets_only es \<Longrightarrow> reason_ok (selectedReason st) \<Longrightarrow>
     reason_ok (selectedReason (foldl cjm_apply st es))"
proof (induction es arbitrary: st)
  case Nil
  then show ?case by simp
next
  case (Cons e es)
  from Cons.prems(1) have tl: "resets_only es" by (simp add: resets_only_def)
  from Cons.prems have "reason_ok (selectedReason (cjm_apply st e))"
    by (cases e) (auto simp: resets_only_def reason_ok_def split: option.splits)
  with Cons.IH[OF tl] show ?case by simp
qed

lemma sync_handleCancel_cont:
  "sync_run cb (handleCancel props st now) = (es, Some k) \<Longrightarrow>
     clears k \<and> (\<forall>r cb'. resets_only (fst (sync_run cb' (k r))))
     \<and> es = [SetLoading True,
             Called (OnCancel (cancellationData props st (the (selectedReason st)) now))]"
  by (cases "selectedReason st")
     (auto simp add: handleCancel_def proc_defs clears_def resets_only_def
           split: settled.splits if_splits)

lemma sync_handleCancel_nocont:
  "sync_run cb (handleCancel props st now) = (es, None) \<Longrightarrow> \<exists>a. es = [AlertAlert ''Error'' a]"
  by (cases "selectedReason st")
     (auto simp add: handleCancel_def proc_defs split: settled.splits if_splits)

lemma cjm_inv_step: "cjm_inv cfg \<Longrightarrow> cjm_inv (cjm_step cfg i)"
proof (cases i)
  case (SelectReason r)
  assume "cjm_inv cfg"
  with SelectReason show ?thesis
    by (auto simp add: start_def cjm_inv_def selectReason_def emit_def reason_ok_def)
next
  case (ChangeText t)
  assume "cjm_inv cfg"
  with ChangeText show ?thesis
    by (auto simp add: start_def cjm_inv_def onChangeText_def emit_def)
next
  case (PressConfirm props now)
  assume inv: "cjm_inv cfg"
  obtain es k where sr: "sync_run (\<lambda>c. Resolved) (handleCancel props (fst cfg) now) = (es, k)"
    by (cases "sync_run (\<lambda>c. Resolved) (handleCancel props (fst cfg) now)")
  show ?thesis
  proof (cases k)
    case None
    with sr sync_handleCancel_nocont obtain a where "es = [AlertAlert ''Error'' a]" by blast
    with inv PressConfirm sr None show ?thesis
      by (auto simp add: start_def cjm_inv_def)
  next
    case (Some k')
    with sr sync_handleCancel_cont[of "\<lambda>c. Resolved" props "fst cfg" now es k']
    have "clears k'" "\<forall>r cb'. resets_only (fst (sync_run cb' (k' r)))"
      "es = [SetLoading True,
             Called (OnCancel (cancellationData props (fst cfg)
                                 (the (selectedReason (fst cfg))) now))]"
      by simp_all
    with inv PressConfirm sr Some show ?thesis
      by (auto simp add: start_def cjm_inv_def)
  qed
next
  case (PressClose closed)
  assume "cjm_inv cfg"
  with PressClose show ?thesis
    by (auto simp add: start_def cjm_inv_def sync_resetAndClose reason_ok_def)
next
  case (SettleCancel n r closed)
  assume inv: "cjm_inv cfg"
  show ?thesis
  proof (cases "n < length (snd cfg)")
    case False
    with inv SettleCancel show ?thesis by (simp add: settle_def)
  next
    case True
    then have "snd cfg ! n \<in> set (snd cfg)" by simp
    with inv have c: "clears (snd cfg ! n)"
      and ro: "resets_only (fst (sync_run (\<lambda>c. closed) ((snd cfg ! n) r)))"
      by (simp_all add: cjm_inv_def)
    obtain es k where sr: "sync_run (\<lambda>c. closed) ((snd cfg ! n) r) = (es, k)"
      by (cases "sync_run (\<lambda>c. closed) ((snd cfg ! n) r)")
    with c have k: "k = None" and es: "es \<noteq> []" "last es = SetLoading False"
      unfolding clears_def by (metis fst_conv snd_conv)+
    from ro sr have ro': "resets_only es" by simp
    from inv have "reason_ok (selectedReason (fst cfg))" by (simp add: cjm_inv_def)
    note rk = reason_ok_foldl[OF ro' this]
    from inv remaining_subset[of n "snd cfg"] True SettleCancel sr k busy_last[OF es] rk
    show ?thesis
      by (auto simp add: settle_def start_def cjm_inv_def)
  qed
qed

lemma cjm_inv_foldl: "cjm_inv cfg \<Longrightarrow> cjm_inv (foldl cjm_step cfg ins)"
  by (induction ins arbitrary: cfg) (auto simp: cjm_inv_step)

lemma cjm_inv_exec: "cjm_inv (cjm_exec ins)"
  unfolding cjm_exec_def
  by (rule cjm_inv_foldl) (simp add: cjm_inv_def cjm_initial_def reason_ok_def)

lemma reason_ok_cases:
  "reason_ok v \<Longrightarrow>
     v = None \<or> (\<exists>r. v = Some r \<and> truthy r \<and> (\<exists>e \<in> set CANCEL_REASONS. reason_id e = r))"
  by (cases v) (auto simp: reason_ok_def truthy_def CANCEL_REASONS_def)

section \<open>Lookups in the two lists\<close>

lemma find_present:
  "distinct (map f xs) \<Longrightarrow> e \<in> set xs \<Longrightarrow> find (\<lambda>s. f s = f e) xs = Some e"
  by (induction xs) (auto simp add: image_iff)

lemma find_absent: "x \<notin> set (map f xs) \<Longrightarrow> find (\<lambda>s. f s = x) xs = None"
  by (induction xs) auto

lemma distinct_status_ids: "distinct (map status_id PAYMENT_STATUSES)"
  by (simp add: PAYMENT_STATUSES_def)

lemma find_status:
  "e \<in> set PAYMENT_STATUSES \<Longrightarrow>
     find (\<lambda>s. status_id s = status_id e) PAYMENT_STATUSES = Some e"
  by (rule find_present[OF distinct_status_ids])

lemma find_status_unknown:
  "x \<notin> set (map status_id PAYMENT_STATUSES) \<Longrightarrow>
     find (\<lambda>s. status_id s = x) PAYMENT_STATUSES = None"
  by (rule find_absent)

lemma status_label_truthy: "e \<in> set PAYMENT_STATUSES \<Longrightarrow> truthy (status_label e)"
  apply (simp add: PAYMENT_STATUSES_def truthy_def)
  apply (elim disjE)
  apply simp_all
  done

lemma first_entry_PAYMENT_STATUSES:
  "first_entry PAYMENT_STATUSES =
     Some \<lparr>status_id = ''unpaid'', status_label = ''Unpaid'', status_color = ''#f44336''\<rparr>"
  by (simp add: first_entry_def PAYMENT_STATUSES_def)

lemma statusObj_known:
  "e \<in> set PAYMENT_STATUSES \<Longrightarrow> status_id e = currentStatus props \<Longrightarrow>
     statusObj props = Some e"
  using find_status[of e] by (simp add: statusObj_def)

lemma statusObj_unknown:
  "currentStatus props \<notin> set (map status_id PAYMENT_STATUSES) \<Longrightarrow>
     statusObj props =
       Some \<lparr>status_id = ''unpaid'', status_label = ''Unpaid'', status_color = ''#f44336''\<rparr>"
  by (simp add: statusObj_def find_status_unknown first_entry_PAYMENT_STATUSES)

lemma historyItemStatus_known:
  "e \<in> set PAYMENT_STATUSES \<Longrightarrow> status_id e = status item \<Longrightarrow>
     historyItemStatus item = status_label e"
  using status_label_truthy[of e] find_status[of e]
  by (simp add: historyItemStatus_def or_else_def)

lemma historyItemStatus_unknown:
  "status item \<notin> set (map status_id PAYMENT_STATUSES) \<Longrightarrow>
     historyItemStatus item = status item"
  by (simp add: historyItemStatus_def find_status_unknown or_else_def)

lemma distinct_reason_ids: "distinct (map reason_id CANCEL_REASONS)"
  by (simp add: CANCEL_REASONS_def)

lemma find_reason:
  "e \<in> set CANCEL_REASONS \<Longrightarrow>
     find (\<lambda>x. reason_id x = reason_id e) CANCEL_REASONS = Some e"
  by (rule find_present[OF distinct_reason_ids])

lemma cancellationData_eq:
  "e \<in> set CANCEL_REASONS \<Longrightarrow>
     cancellationData props st (reason_id e) now =
       \<lparr>reason = reason_id e,
        reasonText = Some (if reason_id e = ''other'' then otherReason st else reason_label e),
        cancelledBy = (if isCustomer props then ''customer'' else ''mechanic''),
        cancelledAt = now\<rparr>"
  by (simp add: cancellationData_def find_reason)

section \<open>Submitting a cancellation\<close>

lemma exec_reason_cases:
  "selectedReason (fst (cjm_exec ins)) = None
   \<or> (\<exists>r. selectedReason (fst (cjm_exec ins)) = Some r \<and> truthy r
          \<and> (\<exists>e \<in> set CANCEL_REASONS. reason_id e = r))"
  using cjm_inv_exec[of ins] reason_ok_cases by (simp add: cjm_inv_def)

lemma calls_invalid:
  "no_valid_reason st \<Longrightarrow> calls (trace env (handleCancel props st now)) = []"
  unfolding no_valid_reason_def trace_def
  by (auto simp add: run_handleCancel_unselected run_handleCancel_blank truthy_opt_def
        truthy_def)

lemma calls_valid:
  "selectedReason st = Some r \<Longrightarrow> truthy r \<Longrightarrow> \<not> no_valid_reason st \<Longrightarrow>
     calls (trace env (handleCancel props st now)) \<noteq> []"
  unfolding trace_def
  by (subst run_handleCancel_valid[of st r])
     (auto simp add: no_valid_reason_def truthy_def split: option.splits settled.splits)

lemma calls_handleCancel_valid:
  "selectedReason st = Some r \<Longrightarrow> truthy r \<Longrightarrow>
   r = ''other'' \<longrightarrow> truthy (trim (otherReason st)) \<Longrightarrow>
     take 1 (calls (trace env (handleCancel props st now))) =
       [OnCancel (cancellationData props st r now)]
     \<and> set (calls (trace env (handleCancel props st now)))
         \<subseteq> {OnCancel (cancellationData props st r now), OnClose}"
  unfolding trace_def
  by (subst (1 2) run_handleCancel_valid[of st r])
     (auto split: option.splits settled.splits)

section \<open>The example inputs, evaluated\<close>

lemma example_cost_selected_state:
  "fst (cjm_exec example_cost_selected) =
     \<lparr>selectedReason = Some ''cost_concerns'', otherReason = [], busy = False\<rparr>"
  by (simp add: cjm_exec_def example_cost_selected_def start_def selectReason_def emit_def
        CANCEL_REASONS_def cjm_initial_def)

lemma example_other_blank_state:
  "fst (cjm_exec example_other_blank) =
     \<lparr>selectedReason = Some ''other'', otherReason = ''  '', busy = False\<rparr>"
  by (simp add: cjm_exec_def example_other_blank_def start_def selectReason_def
        onChangeText_def emit_def CANCEL_REASONS_def cjm_initial_def)

lemma example_update_rejected:
  "pst_exec example_tracker [PressStatus example_tracker ''paid'', SettleUpdate 0 Rejected] =
     (\<lparr>loading = False, selectedStatus = ''unpaid'', showHistory = False\<rparr>, [])"
  by (simp add: pst_exec_def start_def settle_def handleUpdateStatus_def proc_defs
        pst_initial_def example_tracker_def)

lemma example_cancel_resolved:
  "cjm_exec (example_cost_selected @
       [PressConfirm example_modal example_now, SettleCancel 0 Resolved Resolved]) =
     (\<lparr>selectedReason = None, otherReason = [], busy = False\<rparr>, [])"
  by (simp add: cjm_exec_def example_cost_selected_def start_def settle_def selectReason_def
        handleCancel_def proc_defs CANCEL_REASONS_def cjm_initial_def truthy_def)

lemma example_other_filled_state:
  "fst (cjm_exec example_other_filled) =
     \<lparr>selectedReason = Some ''other'', otherReason = ''moving abroad'', busy = False\<rparr>"
  by (simp add: cjm_exec_def example_other_filled_def start_def selectReason_def
        onChangeText_def emit_def CANCEL_REASONS_def cjm_initial_def)

lemma trim_examples: "trim ''  '' = []" "trim ''moving abroad'' = ''moving abroad''"
  by (simp_all add: trim_def isWhiteSpace_def)

section \<open>The claims about PaymentStatusTracker\<close>

text \<open>
  Claim C1, amended.  In \<^verbatim>\<open>handleUpdateStatus\<close>, for every requested status different from
  \<^verbatim>\<open>currentStatus\<close>, the local \<^verbatim>\<open>selectedStatus\<close> is set to the requested status only after
  the injected \<^verbatim>\<open>onUpdateStatus\<close> has resolved.  When the callback rejects, or never settles,
  no \<^verbatim>\<open>setSelectedStatus\<close> call is made and \<^verbatim>\<open>selectedStatus\<close> keeps the value it had, so
  the handler does not desynchronise it from \<^verbatim>\<open>currentStatus\<close>.
\<close>

theorem selectedStatus_set_only_after_success:
  assumes "newStatus \<noteq> currentStatus props"
  shows "(env (OnUpdateStatus newStatus) = Some Resolved \<longrightarrow>
            trace env (handleUpdateStatus props newStatus) =
              [SetLoading True, Called (OnUpdateStatus newStatus),
               SetSelectedStatus newStatus, SetLoading False]
            \<and> selectedStatus (pst_after st (trace env (handleUpdateStatus props newStatus)))
                = newStatus)
       \<and> (env (OnUpdateStatus newStatus) \<noteq> Some Resolved \<longrightarrow>
            (\<forall>s. SetSelectedStatus s \<notin> set (trace env (handleUpdateStatus props newStatus)))
            \<and> selectedStatus (pst_after st (trace env (handleUpdateStatus props newStatus)))
                = selectedStatus st)"
  using assms
  by (cases "env (OnUpdateStatus newStatus)")
     (auto simp add: trace_def run_handleUpdateStatus pst_after_def split: settled.splits)

theorem selectedStatus_set_only_after_success_witness:
  "''paid'' \<noteq> currentStatus example_tracker
   \<and> answer_all Rejected (OnUpdateStatus ''paid'') \<noteq> Some Resolved
   \<and> selectedStatus
        (pst_after (pst_initial example_tracker)
           (trace (answer_all Rejected) (handleUpdateStatus example_tracker ''paid'')))
       = selectedStatus (pst_initial example_tracker)
   \<and> answer_all Resolved (OnUpdateStatus ''paid'') = Some Resolved
   \<and> selectedStatus
        (pst_after (pst_initial example_tracker)
           (trace (answer_all Resolved) (handleUpdateStatus example_tracker ''paid'')))
       = ''paid''"
proof -
  have h: "''paid'' \<noteq> currentStatus example_tracker"
    by (simp add: example_tracker_def)
  have rej: "answer_all Rejected (OnUpdateStatus ''paid'') \<noteq> Some Resolved"
    by (simp add: answer_all_def)
  have res: "answer_all Resolved (OnUpdateStatus ''paid'') = Some Resolved"
    by (simp add: answer_all_def)
  note t1 = selectedStatus_set_only_after_success
              [where env = "answer_all Rejected" and st = "pst_initial example_tracker", OF h]
  note t2 = selectedStatus_set_only_after_success
              [where env = "answer_all Resolved" and st = "pst_initial example_tracker", OF h]
  note c1 = t1[THEN conjunct2, THEN mp, OF rej, THEN conjunct2]
  note c2 = t2[THEN conjunct1, THEN mp, OF res, THEN conjunct2]
  show ?thesis
    by (rule conjI[OF h conjI[OF rej conjI[OF c1 conjI[OF res c2]]]])
qed

text \<open>
  Claim C1 as stated fails on the code: \<^verbatim>\<open>setSelectedStatus(newStatus)\<close> stands after the
  \<^verbatim>\<open>await\<close> inside the \<^verbatim>\<open>try\<close> block (line 48).  On an unpaid request, a request for \<^verbatim>\<open>paid\<close>
  whose callback rejects leaves \<^verbatim>\<open>selectedStatus\<close> at \<^verbatim>\<open>unpaid\<close>.
\<close>

theorem selectedStatus_set_before_success_counterexample:
  "''paid'' \<noteq> currentStatus
       \<lparr>requestId = ''req-1'', currentStatus = ''unpaid'', paymentHistory = [],
        isMechanic = True\<rparr>
   \<and> answer_all Rejected (OnUpdateStatus ''paid'') = Some Rejected
   \<and> selectedStatus
        (pst_after
           (pst_initial
              \<lparr>requestId = ''req-1'', currentStatus = ''unpaid'', paymentHistory = [],
               isMechanic = True\<rparr>)
           (trace (answer_all Rejected)
              (handleUpdateStatus
                 \<lparr>requestId = ''req-1'', currentStatus = ''unpaid'', paymentHistory = [],
                  isMechanic = True\<rparr> ''paid'')))
       = ''unpaid''
   \<and> SetSelectedStatus ''paid'' \<notin> set
        (trace (answer_all Rejected)
           (handleUpdateStatus
              \<lparr>requestId = ''req-1'', currentStatus = ''unpaid'', paymentHistory = [],
               isMechanic = True\<rparr> ''paid''))"
  by (simp add: trace_def run_handleUpdateStatus pst_after_def pst_initial_def answer_all_def)

text \<open>
  Claim C4.  A call of \<^verbatim>\<open>handleUpdateStatus\<close> with the current status id is a no-op and not
  an error: the handler completes normally without any effect, so \<^verbatim>\<open>onUpdateStatus\<close> is not
  invoked, the busy flag is never set and the local state is unchanged; the chip of the
  current status is disabled.
\<close>

theorem same_status_is_noop:
  "run env (handleUpdateStatus props (currentStatus props)) = ([], Completed)
   \<and> calls (trace env (handleUpdateStatus props (currentStatus props))) = []
   \<and> SetLoading True \<notin> set (trace env (handleUpdateStatus props (currentStatus props)))
   \<and> pst_after st (trace env (handleUpdateStatus props (currentStatus props))) = st
   \<and> statusOption_disabled props st
        \<lparr>status_id = currentStatus props, status_label = l, status_color = c\<rparr>"
  by (simp add: trace_def run_handleUpdateStatus pst_after_def statusOption_disabled_def)

text \<open>
  Claim C5, amended.  Every lookup of a status id in the list of payment statuses is total
  and never raises.  An id of the list resolves to the entry with that id (the badge shows
  its colour and label, a history entry its label).  An unknown id resolves to the first
  entry of the list for the badge, and to the raw id itself, unchanged, for a history entry.
\<close>

theorem status_lookup_total_raw_id_fallback:
  "(\<forall>e \<in> set PAYMENT_STATUSES. status_id e = currentStatus props \<longrightarrow>
       statusObj props = Some e \<and> statusBadge props = Inr (status_color e, status_label e))
   \<and> (currentStatus props \<notin> set (map status_id PAYMENT_STATUSES) \<longrightarrow>
       statusObj props =
         Some \<lparr>status_id = ''unpaid'', status_label = ''Unpaid'', status_color = ''#f44336''\<rparr>
       \<and> statusBadge props = Inr (''#f44336'', ''Unpaid''))
   \<and> statusBadge props \<noteq> Inl TypeError
   \<and> (\<forall>e \<in> set PAYMENT_STATUSES. status_id e = status item \<longrightarrow>
       historyItemStatus item = status_label e)
   \<and> (status item \<notin> set (map status_id PAYMENT_STATUSES) \<longrightarrow>
       historyItemStatus item = status item)"
proof -
  have a: "\<forall>e \<in> set PAYMENT_STATUSES. status_id e = currentStatus props \<longrightarrow>
       statusObj props = Some e \<and> statusBadge props = Inr (status_color e, status_label e)"
    by (simp add: statusBadge_def statusObj_known)
  have b: "currentStatus props \<notin> set (map status_id PAYMENT_STATUSES) \<longrightarrow>
       statusObj props =
         Some \<lparr>status_id = ''unpaid'', status_label = ''Unpaid'', status_color = ''#f44336''\<rparr>
       \<and> statusBadge props = Inr (''#f44336'', ''Unpaid'')"
    by (simp add: statusBadge_def statusObj_unknown)
  have c: "statusBadge props \<noteq> Inl TypeError"
  proof (cases "currentStatus props \<in> set (map status_id PAYMENT_STATUSES)")
    case True
    then obtain e where "e \<in> set PAYMENT_STATUSES" "status_id e = currentStatus props"
      by auto
    with a show ?thesis by simp
  next
    case False
    with b show ?thesis by simp
  qed
  have d: "\<forall>e \<in> set PAYMENT_STATUSES. status_id e = status item \<longrightarrow>
       historyItemStatus item = status_label e"
    by (simp add: historyItemStatus_known)
  have e: "status item \<notin> set (map status_id PAYMENT_STATUSES) \<longrightarrow>
       historyItemStatus item = status item"
    by (simp add: historyItemStatus_unknown)
  show ?thesis
    by (rule conjI[OF a conjI[OF b conjI[OF c conjI[OF d e]]]])
qed

theorem status_lookup_total_raw_id_fallback_witness:
  "\<lparr>status_id = ''paid'', status_label = ''Paid'', status_color = ''#4caf50''\<rparr>
       \<in> set PAYMENT_STATUSES
   \<and> status_id \<lparr>status_id = ''paid'', status_label = ''Paid'', status_color = ''#4caf50''\<rparr>
       = status (hd (paymentHistory example_tracker))
   \<and> historyItemStatus (hd (paymentHistory example_tracker)) = ''Paid''
   \<and> status (last (paymentHistory example_tracker)) \<notin> set (map status_id PAYMENT_STATUSES)
   \<and> historyItemStatus (last (paymentHistory example_tracker)) = ''overdue''
   \<and> currentStatus (example_tracker\<lparr>currentStatus := ''overdue''\<rparr>)
       \<notin> set (map status_id PAYMENT_STATUSES)
   \<and> statusBadge (example_tracker\<lparr>currentStatus := ''overdue''\<rparr>) = Inr (''#f44336'', ''Unpaid'')"
proof -
  have m: "\<lparr>status_id = ''paid'', status_label = ''Paid'', status_color = ''#4caf50''\<rparr>
       \<in> set PAYMENT_STATUSES"
    by (simp add: PAYMENT_STATUSES_def)
  have i: "status_id \<lparr>status_id = ''paid'', status_label = ''Paid'', status_color = ''#4caf50''\<rparr>
       = status (hd (paymentHistory example_tracker))"
    by (simp add: example_tracker_def)
  have u: "status (last (paymentHistory example_tracker))
       \<notin> set (map status_id PAYMENT_STATUSES)"
    by (simp add: example_tracker_def PAYMENT_STATUSES_def)
  have v: "currentStatus (example_tracker\<lparr>currentStatus := ''overdue''\<rparr>)
       \<notin> set (map status_id PAYMENT_STATUSES)"
    by (simp add: PAYMENT_STATUSES_def)
  note t1 = status_lookup_total_raw_id_fallback
              [where item = "hd (paymentHistory example_tracker)"]
  note t2 = status_lookup_total_raw_id_fallback
              [where item = "last (paymentHistory example_tracker)"
                 and props = "example_tracker\<lparr>currentStatus := ''overdue''\<rparr>"]
  from t1[THEN conjunct2, THEN conjunct2, THEN conjunct2, THEN conjunct1, THEN bspec, OF m,
          THEN mp, OF i]
  have c1: "historyItemStatus (hd (paymentHistory example_tracker)) = ''Paid''" by simp
  from t2[THEN conjunct2, THEN conjunct2, THEN conjunct2, THEN conjunct2, THEN mp, OF u]
  have c2: "historyItemStatus (last (paymentHistory example_tracker)) = ''overdue''"
    by (simp add: example_tracker_def)
  note c3 = t2[THEN conjunct2, THEN conjunct1, THEN mp, OF v, THEN conjunct2]
  show ?thesis
    by (rule conjI[OF m conjI[OF i conjI[OF c1 conjI[OF u conjI[OF c2 conjI[OF v c3]]]]]])
qed

text \<open>
  Claim C5 as stated fails on the code for history entries: line 146 falls back to
  \<^verbatim>\<open>item.status\<close> itself.  A history entry with the unknown status \<^verbatim>\<open>overdue\<close> is labelled
  \<^verbatim>\<open>overdue\<close>, not \<^verbatim>\<open>Overdue\<close>.
\<close>

theorem history_label_capitalized_counterexample:
  "''overdue'' \<notin> set (map status_id PAYMENT_STATUSES)
   \<and> historyItemStatus
        \<lparr>status = ''overdue'', date = ''2024-03-01T09:30:00'', amount = None,
         note_text = None\<rparr> = ''overdue''
   \<and> historyItemStatus
        \<lparr>status = ''overdue'', date = ''2024-03-01T09:30:00'', amount = None,
         note_text = None\<rparr> \<noteq> ''Overdue''"
  by (simp add: historyItemStatus_def or_else_def PAYMENT_STATUSES_def)

text \<open>
  Claim C7.  The history list renders the entries of \<^verbatim>\<open>paymentHistory\<close> in the order of the
  list, one view per entry and the \<open>i\<close>-th view from the \<open>i\<close>-th entry, without sorting by
  timestamp; the date text of each view is the locale date string of the entry's date, a
  single space, and its locale time string.
\<close>

theorem history_rendered_in_list_order:
  "length (historyList pf props) = length (paymentHistory props)
   \<and> (\<forall>i < length (paymentHistory props).
        key (historyList pf props ! i) = i
        \<and> historyItemStatus_text (historyList pf props ! i)
            = historyItemStatus (paymentHistory props ! i)
        \<and> historyItemDate_text (historyList pf props ! i)
            = toLocaleDateString pf (newDate pf (date (paymentHistory props ! i))) @ '' '' @
              toLocaleTimeString pf (newDate pf (date (paymentHistory props ! i))))"
  by (simp add: historyList_def historyItem_def formatDate_def nth_enumerate_eq Let_def)

theorem history_rendered_in_list_order_witness:
  "(1::nat) < length (paymentHistory example_tracker)
   \<and> date (paymentHistory example_tracker ! 0) = ''2024-03-02T10:15:00''
   \<and> date (paymentHistory example_tracker ! 1) = ''2024-03-01T09:30:00''
   \<and> key (historyList example_platform example_tracker ! 1) = 1
   \<and> historyItemDate_text (historyList example_platform example_tracker ! 1)
       = ''2024-03-01 09:30:00''"
proof -
  have h: "(1::nat) < length (paymentHistory example_tracker)"
    by (simp add: example_tracker_def)
  have d0: "date (paymentHistory example_tracker ! 0) = ''2024-03-02T10:15:00''"
    by (simp add: example_tracker_def)
  have d1: "date (paymentHistory example_tracker ! 1) = ''2024-03-01T09:30:00''"
    by (simp add: example_tracker_def)
  note t = history_rendered_in_list_order
             [where pf = example_platform and props = example_tracker,
              THEN conjunct2, THEN spec, THEN mp, OF h]
  note c1 = t[THEN conjunct1]
  have f: "toLocaleDateString example_platform (newDate example_platform ''2024-03-01T09:30:00'')
        @ '' '' @
        toLocaleTimeString example_platform (newDate example_platform ''2024-03-01T09:30:00'')
       = ''2024-03-01 09:30:00''"
    by (simp add: example_platform_def)
  note c2 = trans[OF t[THEN conjunct2, THEN conjunct2, unfolded d1] f]
  show ?thesis
    by (rule conjI[OF h conjI[OF d0 conjI[OF d1 conjI[OF c1 c2]]]])
qed

text \<open>
  Claim C9.  The same-status guard of \<^verbatim>\<open>handleUpdateStatus\<close> and the \<^verbatim>\<open>disabled\<close> attribute of a
  chip compare with the \<^verbatim>\<open>currentStatus\<close> prop, not with the local \<^verbatim>\<open>selectedStatus\<close>.  After
  an update to \<open>s\<close> has succeeded while the props still carry the old \<^verbatim>\<open>currentStatus\<close>, the
  chip of \<open>s\<close> is shown selected but is not disabled, and requesting the selected status
  again calls \<^verbatim>\<open>onUpdateStatus\<close> again.
\<close>

theorem guard_reads_currentStatus_prop:
  assumes "s \<noteq> currentStatus props" and "env (OnUpdateStatus s) = Some Resolved"
  shows "selectedStatus (pst_after st (trace env (handleUpdateStatus props s))) = s
     \<and> \<not> loading (pst_after st (trace env (handleUpdateStatus props s)))
     \<and> (\<forall>chip. status_id chip = s \<longrightarrow>
          statusOption_selected (pst_after st (trace env (handleUpdateStatus props s))) chip
          \<and> \<not> statusOption_disabled props
                (pst_after st (trace env (handleUpdateStatus props s))) chip)
     \<and> calls (trace env (handleUpdateStatus props
                 (selectedStatus (pst_after st (trace env (handleUpdateStatus props s))))))
         = [OnUpdateStatus s]"
  using assms
  by (simp add: trace_def run_handleUpdateStatus pst_after_def statusOption_disabled_def
        statusOption_selected_def)

theorem guard_reads_currentStatus_prop_witness:
  "''paid'' \<noteq> currentStatus example_tracker
   \<and> answer_all Resolved (OnUpdateStatus ''paid'') = Some Resolved
   \<and> status_id \<lparr>status_id = ''paid'', status_label = ''Paid'', status_color = ''#4caf50''\<rparr>
       = ''paid''
   \<and> \<not> statusOption_disabled example_tracker
         (pst_after (pst_initial example_tracker)
            (trace (answer_all Resolved) (handleUpdateStatus example_tracker ''paid'')))
         \<lparr>status_id = ''paid'', status_label = ''Paid'', status_color = ''#4caf50''\<rparr>
   \<and> calls (trace (answer_all Resolved)
        (handleUpdateStatus example_tracker
           (selectedStatus
              (pst_after (pst_initial example_tracker)
                 (trace (answer_all Resolved) (handleUpdateStatus example_tracker ''paid''))))))
       = [OnUpdateStatus ''paid'']"
proof -
  have h1: "''paid'' \<noteq> currentStatus example_tracker"
    by (simp add: example_tracker_def)
  have h2: "answer_all Resolved (OnUpdateStatus ''paid'') = Some Resolved"
    by (simp add: answer_all_def)
  have h3: "status_id \<lparr>status_id = ''paid'', status_label = ''Paid'',
       status_color = ''#4caf50''\<rparr> = ''paid''"
    by simp
  note t = guard_reads_currentStatus_prop
             [where st = "pst_initial example_tracker" and env = "answer_all Resolved"
                and s = "''paid''" and props = example_tracker, OF h1 h2]
  note c1 = t[THEN conjunct2, THEN conjunct2, THEN conjunct1, THEN spec, THEN mp, OF h3,
              THEN conjunct2]
  note c2 = t[THEN conjunct2, THEN conjunct2, THEN conjunct2]
  show ?thesis
    by (rule conjI[OF h1 conjI[OF h2 conjI[OF h3 conjI[OF c1 c2]]]])
qed

text \<open>
  Claim C10.  \<^verbatim>\<open>handleSendReminder\<close> invokes no injected callback and no external service:
  every run sets the busy flag, shows the alert \<^verbatim>\<open>Payment reminder sent to customer\<close> and
  clears the flag.  Its \<^verbatim>\<open>catch\<close> block is unreachable: whatever the block is, the
  \<^verbatim>\<open>try\<close> statement equals its body followed by the \<^verbatim>\<open>finally\<close> block, and the failure alert
  and the error log never occur.
\<close>

theorem reminder_calls_nothing:
  "try_catch_finally (emit (AlertAlert ''Success'' ''Payment reminder sent to customer'')) h
       (emit (SetLoading False))
     = seq (emit (AlertAlert ''Success'' ''Payment reminder sent to customer''))
         (emit (SetLoading False))
   \<and> run env handleSendReminder =
       ([SetLoading True, AlertAlert ''Success'' ''Payment reminder sent to customer'',
         SetLoading False], Completed)
   \<and> calls (trace env handleSendReminder) = []
   \<and> AlertAlert ''Error'' ''Failed to send payment reminder'' \<notin> set (trace env handleSendReminder)
   \<and> ConsoleError ''Error sending payment reminder:'' \<notin> set (trace env handleSendReminder)
   \<and> \<not> loading (pst_after st (trace env handleSendReminder))"
  by (simp add: trace_def run_handleSendReminder pst_after_def proc_defs)

section \<open>The claims about CancelJobModal\<close>

text \<open>
  Claim C2.  For a submission that passes validation: when the injected \<^verbatim>\<open>onCancel\<close>
  resolves, \<^verbatim>\<open>selectedReason\<close> is reset to \<^verbatim>\<open>null\<close> and \<^verbatim>\<open>otherReason\<close> to the empty string,
  and \<^verbatim>\<open>onClose\<close> is invoked; when \<^verbatim>\<open>onCancel\<close> rejects, neither field is reset, \<^verbatim>\<open>onClose\<close> is
  not invoked, and the alert \<^verbatim>\<open>Failed to cancel job. Please try again.\<close> is shown.
\<close>

theorem cancel_success_resets_failure_preserves:
  assumes "selectedReason st = Some r" and "truthy r"
    and "r = ''other'' \<longrightarrow> truthy (trim (otherReason st))"
  shows "(env (OnCancel (cancellationData props st r now)) = Some Resolved \<longrightarrow>
            take 5 (trace env (handleCancel props st now)) =
              [SetLoading True, Called (OnCancel (cancellationData props st r now)),
               SetSelectedReason None, SetOtherReason [], Called OnClose]
            \<and> OnClose \<in> set (calls (trace env (handleCancel props st now)))
            \<and> selectedReason (cjm_after st (trace env (handleCancel props st now))) = None
            \<and> otherReason (cjm_after st (trace env (handleCancel props st now))) = [])
       \<and> (env (OnCancel (cancellationData props st r now)) = Some Rejected \<longrightarrow>
            trace env (handleCancel props st now) =
              [SetLoading True, Called (OnCancel (cancellationData props st r now)),
               ConsoleError ''Error cancelling job:'',
               AlertAlert ''Error'' ''Failed to cancel job. Please try again.'',
               SetLoading False]
            \<and> OnClose \<notin> set (calls (trace env (handleCancel props st now)))
            \<and> selectedReason (cjm_after st (trace env (handleCancel props st now)))
                = selectedReason st
            \<and> otherReason (cjm_after st (trace env (handleCancel props st now)))
                = otherReason st)"
  unfolding trace_def run_handleCancel_valid[OF assms]
  by (auto simp add: cjm_after_def split: option.splits settled.splits)

theorem cancel_success_resets_failure_preserves_witness:
  "selectedReason (fst (cjm_exec example_other_filled)) = Some ''other''
   \<and> truthy ''other''
   \<and> truthy (trim (otherReason (fst (cjm_exec example_other_filled))))
   \<and> answer_all Rejected
        (OnCancel (cancellationData example_modal (fst (cjm_exec example_other_filled))
                     ''other'' example_now)) = Some Rejected
   \<and> otherReason
        (cjm_after (fst (cjm_exec example_other_filled))
           (trace (answer_all Rejected)
              (handleCancel example_modal (fst (cjm_exec example_other_filled)) example_now)))
       = otherReason (fst (cjm_exec example_other_filled))
   \<and> answer_all Resolved
        (OnCancel (cancellationData example_modal (fst (cjm_exec example_other_filled))
                     ''other'' example_now)) = Some Resolved
   \<and> otherReason
        (cjm_after (fst (cjm_exec example_other_filled))
           (trace (answer_all Resolved)
              (handleCancel example_modal (fst (cjm_exec example_other_filled)) example_now)))
       = []"
proof -
  have h1: "selectedReason (fst (cjm_exec example_other_filled)) = Some ''other''"
    by (simp add: example_other_filled_state)
  have h2: "truthy ''other''"
    by (simp add: truthy_def)
  have h3: "truthy (trim (otherReason (fst (cjm_exec example_other_filled))))"
    by (simp add: example_other_filled_state trim_examples truthy_def)
  then have h3': "''other'' = ''other''
      \<longrightarrow> truthy (trim (otherReason (fst (cjm_exec example_other_filled))))"
    by (rule impI)
  have rej: "answer_all Rejected
        (OnCancel (cancellationData example_modal (fst (cjm_exec example_other_filled))
                     ''other'' example_now)) = Some Rejected"
    by (simp add: answer_all_def)
  have res: "answer_all Resolved
        (OnCancel (cancellationData example_modal (fst (cjm_exec example_other_filled))
                     ''other'' example_now)) = Some Resolved"
    by (simp add: answer_all_def)
  note t1 = cancel_success_resets_failure_preserves
              [where env = "answer_all Rejected" and props = example_modal
                 and now = example_now, OF h1 h2 h3']
  note t2 = cancel_success_resets_failure_preserves
              [where env = "answer_all Resolved" and props = example_modal
                 and now = example_now, OF h1 h2 h3']
  note c1 = t1[THEN conjunct2, THEN mp, OF rej, THEN conjunct2, THEN conjunct2, THEN conjunct2]
  note c2 = t2[THEN conjunct1, THEN mp, OF res, THEN conjunct2, THEN conjunct2, THEN conjunct2]
  show ?thesis
    by (rule conjI[OF h1 conjI[OF h2 conjI[OF h3 conjI[OF rej conjI[OF c1 conjI[OF res c2]]]]]])
qed

text \<open>
  Claim C3.  In every state the modal can reach, \<^verbatim>\<open>handleCancel\<close> returns without invoking
  \<^verbatim>\<open>onCancel\<close> exactly when no reason id is selected, or the selected id is \<^verbatim>\<open>other\<close> and the
  free text is empty after trimming; the submission is blocked (confirm control disabled and
  \<^verbatim>\<open>handleCancel\<close> returning early) exactly in that case; and while the modal is not busy the
  confirm control is disabled exactly in that case, so selecting any other reason, or
  \<^verbatim>\<open>other\<close> with a non-blank text, enables it.
\<close>

theorem submission_blocked_iff_no_valid_reason:
  assumes "st = fst (cjm_exec ins)"
  shows "(calls (trace env (handleCancel props st now)) = [] \<longleftrightarrow> no_valid_reason st)
     \<and> ((confirmButton_disabled st \<and> calls (trace env (handleCancel props st now)) = [])
          \<longleftrightarrow> no_valid_reason st)
     \<and> (\<not> busy st \<longrightarrow> (confirmButton_disabled st \<longleftrightarrow> no_valid_reason st))"
proof -
  from exec_reason_cases[of ins] assms
  consider "selectedReason st = None"
    | r where "selectedReason st = Some r" "truthy r"
    by auto
  then show ?thesis
  proof cases
    case 1
    then have nv: "no_valid_reason st"
      by (simp add: no_valid_reason_def)
    from 1 have "confirmButton_disabled st"
      by (simp add: confirmButton_disabled_def truthy_opt_def)
    with nv calls_invalid[OF nv] show ?thesis by simp
  next
    case 2
    then have d: "confirmButton_disabled st \<longleftrightarrow> busy st \<or> no_valid_reason st"
      by (auto simp add: confirmButton_disabled_def truthy_opt_def truthy_def
            no_valid_reason_def)
    from 2 calls_valid calls_invalid
    have "calls (trace env (handleCancel props st now)) = [] \<longleftrightarrow> no_valid_reason st"
      by blast
    with d show ?thesis by blast
  qed
qed

theorem submission_blocked_iff_no_valid_reason_witness:
  "no_valid_reason (fst (cjm_exec example_other_blank))
   \<and> confirmButton_disabled (fst (cjm_exec example_other_blank))
   \<and> calls (trace (answer_all Resolved)
        (handleCancel example_modal (fst (cjm_exec example_other_blank)) example_now)) = []
   \<and> \<not> busy (fst (cjm_exec example_cost_selected))
   \<and> \<not> no_valid_reason (fst (cjm_exec example_cost_selected))
   \<and> \<not> confirmButton_disabled (fst (cjm_exec example_cost_selected))
   \<and> calls (trace (answer_all Resolved)
        (handleCancel example_modal (fst (cjm_exec example_cost_selected)) example_now)) \<noteq> []"
proof -
  have nv: "no_valid_reason (fst (cjm_exec example_other_blank))"
    by (simp add: example_other_blank_state no_valid_reason_def trim_examples)
  have nb: "\<not> busy (fst (cjm_exec example_cost_selected))"
    by (simp add: example_cost_selected_state)
  have v: "\<not> no_valid_reason (fst (cjm_exec example_cost_selected))"
    by (simp add: example_cost_selected_state no_valid_reason_def)
  note t1 = submission_blocked_iff_no_valid_reason
              [where ins = example_other_blank and env = "answer_all Resolved"
                 and props = example_modal and now = example_now, OF refl]
  note t2 = submission_blocked_iff_no_valid_reason
              [where ins = example_cost_selected and env = "answer_all Resolved"
                 and props = example_modal and now = example_now, OF refl]
  note b = t1[THEN conjunct2, THEN conjunct1, THEN iffD2, OF nv]
  from t2[THEN conjunct2, THEN conjunct2, THEN mp, OF nb] v
  have c3: "\<not> confirmButton_disabled (fst (cjm_exec example_cost_selected))"
    by simp
  from t2[THEN conjunct1] v
  have c4: "calls (trace (answer_all Resolved)
        (handleCancel example_modal (fst (cjm_exec example_cost_selected)) example_now)) \<noteq> []"
    by simp
  show ?thesis
    by (rule conjI[OF nv conjI[OF b[THEN conjunct1] conjI[OF b[THEN conjunct2]
          conjI[OF nb conjI[OF v conjI[OF c3 c4]]]]]])
qed

text \<open>
  Claim C8.  In every state the modal can reach, a submission that passes validation hands
  \<^verbatim>\<open>onCancel\<close> one record, before any other callback: its \<^verbatim>\<open>reason\<close> is the selected reason id,
  which is the id of an entry of the list of six reasons; its \<^verbatim>\<open>reasonText\<close> is the free
  text when the id is \<^verbatim>\<open>other\<close> and the label of that entry otherwise; its \<^verbatim>\<open>cancelledBy\<close> is
  \<^verbatim>\<open>customer\<close> when \<^verbatim>\<open>isCustomer\<close> is true and \<^verbatim>\<open>mechanic\<close> otherwise; its \<^verbatim>\<open>cancelledAt\<close> is
  the ISO string of the clock read by the handler.
\<close>

theorem cancellation_record_passed_to_onCancel:
  assumes "st = fst (cjm_exec ins)" and "selectedReason st = Some r"
    and "r = ''other'' \<longrightarrow> trim (otherReason st) \<noteq> []"
  shows "\<exists>e \<in> set CANCEL_REASONS. reason_id e = r
     \<and> take 1 (calls (trace env (handleCancel props st now))) =
         [OnCancel
           \<lparr>reason = r,
            reasonText = Some (if r = ''other'' then otherReason st else reason_label e),
            cancelledBy = (if isCustomer props then ''customer'' else ''mechanic''),
            cancelledAt = now\<rparr>]
     \<and> set (calls (trace env (handleCancel props st now))) \<subseteq>
         {OnCancel
           \<lparr>reason = r,
            reasonText = Some (if r = ''other'' then otherReason st else reason_label e),
            cancelledBy = (if isCustomer props then ''customer'' else ''mechanic''),
            cancelledAt = now\<rparr>,
          OnClose}"
proof -
  from exec_reason_cases[of ins] assms(1,2)
  obtain e where e: "e \<in> set CANCEL_REASONS" "reason_id e = r" and t: "truthy r"
    by auto
  from assms(3) have v: "r = ''other'' \<longrightarrow> truthy (trim (otherReason st))"
    by (simp add: truthy_def)
  from calls_handleCancel_valid[OF assms(2) t v, of env props now]
    cancellationData_eq[OF e(1), of props st now] e
  show ?thesis by auto
qed

theorem cancellation_record_passed_to_onCancel_witness:
  "selectedReason (fst (cjm_exec example_cost_selected)) = Some ''cost_concerns''
   \<and> ''cost_concerns'' \<noteq> ''other''
   \<and> take 1 (calls (trace (answer_all Resolved)
        (handleCancel example_modal (fst (cjm_exec example_cost_selected)) example_now))) =
       [OnCancel
         \<lparr>reason = ''cost_concerns'', reasonText = Some ''Cost Concerns'',
          cancelledBy = ''customer'', cancelledAt = ''2024-03-02T10:15:00.000Z''\<rparr>]"
proof -
  have h1: "selectedReason (fst (cjm_exec example_cost_selected)) = Some ''cost_concerns''"
    by (simp add: example_cost_selected_state)
  have h2: "''cost_concerns'' \<noteq> ''other''"
    by simp
  then have h2': "''cost_concerns'' = ''other''
      \<longrightarrow> trim (otherReason (fst (cjm_exec example_cost_selected))) \<noteq> []"
    by simp
  note t = cancellation_record_passed_to_onCancel
             [where ins = example_cost_selected and env = "answer_all Resolved"
                and props = example_modal and now = example_now, OF refl h1 h2']
  from t have c: "take 1 (calls (trace (answer_all Resolved)
        (handleCancel example_modal (fst (cjm_exec example_cost_selected)) example_now))) =
       [OnCancel
         \<lparr>reason = ''cost_concerns'', reasonText = Some ''Cost Concerns'',
          cancelledBy = ''customer'', cancelledAt = ''2024-03-02T10:15:00.000Z''\<rparr>]"
  proof (elim bexE conjE)
    fix e
    assume m: "e \<in> set CANCEL_REASONS" and i: "reason_id e = ''cost_concerns''"
      and k: "take 1 (calls (trace (answer_all Resolved)
          (handleCancel example_modal (fst (cjm_exec example_cost_selected)) example_now))) =
        [OnCancel
          \<lparr>reason = ''cost_concerns'',
           reasonText = Some (if ''cost_concerns'' = ''other''
                              then otherReason (fst (cjm_exec example_cost_selected))
                              else reason_label e),
           cancelledBy = (if isCustomer example_modal then ''customer'' else ''mechanic''),
           cancelledAt = example_now\<rparr>]"
    from m i have "reason_label e = ''Cost Concerns''"
      apply (simp add: CANCEL_REASONS_def)
      apply (elim disjE)
      apply simp_all
      done
    with k show ?thesis
      by (simp add: example_modal_def example_now_def)
  qed
  show ?thesis
    by (rule conjI[OF h1 conjI[OF h2 c]])
qed

section \<open>The claim about the busy flag of both components\<close>

text \<open>
  Claim C6.  Every run of \<^verbatim>\<open>handleUpdateStatus\<close> and of \<^verbatim>\<open>handleCancel\<close> that invokes its
  injected callback sets the busy flag immediately before the call and does not set it
  again; once the callback has settled, by resolution or by rejection, the run completes and
  its last effect clears the flag (a run of \<^verbatim>\<open>handleCancel\<close> stays pending only while
  \<^verbatim>\<open>onCancel\<close> has not settled, or while the \<^verbatim>\<open>onClose\<close> it calls after a resolution has not
  returned).  Between handler segments the flag of a tracker, and of a modal, is false
  whenever no call is in flight.
\<close>

theorem busy_flag_brackets_the_call:
  "(newStatus \<noteq> currentStatus props \<longrightarrow>
      take 2 (trace env (handleUpdateStatus props newStatus)) =
        [SetLoading True, Called (OnUpdateStatus newStatus)]
      \<and> SetLoading True \<notin> set (drop 2 (trace env (handleUpdateStatus props newStatus)))
      \<and> (env (OnUpdateStatus newStatus) \<noteq> None \<longrightarrow>
           last (trace env (handleUpdateStatus props newStatus)) = SetLoading False
           \<and> outcome env (handleUpdateStatus props newStatus) = Completed
           \<and> \<not> loading (pst_after st (trace env (handleUpdateStatus props newStatus)))))
   \<and> (selectedReason cst = Some r \<and> truthy r
        \<and> (r = ''other'' \<longrightarrow> truthy (trim (otherReason cst))) \<longrightarrow>
      take 2 (trace env (handleCancel cprops cst now)) =
        [SetLoading True, Called (OnCancel (cancellationData cprops cst r now))]
      \<and> SetLoading True \<notin> set (drop 2 (trace env (handleCancel cprops cst now)))
      \<and> (outcome env (handleCancel cprops cst now) \<noteq> Pending \<longrightarrow>
           last (trace env (handleCancel cprops cst now)) = SetLoading False
           \<and> outcome env (handleCancel cprops cst now) = Completed
           \<and> \<not> busy (cjm_after cst (trace env (handleCancel cprops cst now))))
      \<and> (outcome env (handleCancel cprops cst now) = Pending \<longleftrightarrow>
           env (OnCancel (cancellationData cprops cst r now)) = None
           \<or> (env (OnCancel (cancellationData cprops cst r now)) = Some Resolved
               \<and> env OnClose = None)))
   \<and> (snd (pst_exec props0 ins) = [] \<longrightarrow> \<not> loading (fst (pst_exec props0 ins)))
   \<and> (snd (cjm_exec cins) = [] \<longrightarrow> \<not> busy (fst (cjm_exec cins)))"
proof -
  have a: "newStatus \<noteq> currentStatus props \<longrightarrow>
      take 2 (trace env (handleUpdateStatus props newStatus)) =
        [SetLoading True, Called (OnUpdateStatus newStatus)]
      \<and> SetLoading True \<notin> set (drop 2 (trace env (handleUpdateStatus props newStatus)))
      \<and> (env (OnUpdateStatus newStatus) \<noteq> None \<longrightarrow>
           last (trace env (handleUpdateStatus props newStatus)) = SetLoading False
           \<and> outcome env (handleUpdateStatus props newStatus) = Completed
           \<and> \<not> loading (pst_after st (trace env (handleUpdateStatus props newStatus))))"
    by (cases "env (OnUpdateStatus newStatus)")
       (auto simp add: trace_def outcome_def run_handleUpdateStatus pst_after_def
             split: settled.splits)
  have b: "selectedReason cst = Some r \<and> truthy r
        \<and> (r = ''other'' \<longrightarrow> truthy (trim (otherReason cst))) \<longrightarrow>
      take 2 (trace env (handleCancel cprops cst now)) =
        [SetLoading True, Called (OnCancel (cancellationData cprops cst r now))]
      \<and> SetLoading True \<notin> set (drop 2 (trace env (handleCancel cprops cst now)))
      \<and> (outcome env (handleCancel cprops cst now) \<noteq> Pending \<longrightarrow>
           last (trace env (handleCancel cprops cst now)) = SetLoading False
           \<and> outcome env (handleCancel cprops cst now) = Completed
           \<and> \<not> busy (cjm_after cst (trace env (handleCancel cprops cst now))))
      \<and> (outcome env (handleCancel cprops cst now) = Pending \<longleftrightarrow>
           env (OnCancel (cancellationData cprops cst r now)) = None
           \<or> (env (OnCancel (cancellationData cprops cst r now)) = Some Resolved
               \<and> env OnClose = None))"
  proof (intro impI, elim conjE)
    assume v: "selectedReason cst = Some r" "truthy r"
      "r = ''other'' \<longrightarrow> truthy (trim (otherReason cst))"
    note rv = run_handleCancel_valid[OF v, of env cprops now]
    show "take 2 (trace env (handleCancel cprops cst now)) =
        [SetLoading True, Called (OnCancel (cancellationData cprops cst r now))]
      \<and> SetLoading True \<notin> set (drop 2 (trace env (handleCancel cprops cst now)))
      \<and> (outcome env (handleCancel cprops cst now) \<noteq> Pending \<longrightarrow>
           last (trace env (handleCancel cprops cst now)) = SetLoading False
           \<and> outcome env (handleCancel cprops cst now) = Completed
           \<and> \<not> busy (cjm_after cst (trace env (handleCancel cprops cst now))))
      \<and> (outcome env (handleCancel cprops cst now) = Pending \<longleftrightarrow>
           env (OnCancel (cancellationData cprops cst r now)) = None
           \<or> (env (OnCancel (cancellationData cprops cst r now)) = Some Resolved
               \<and> env OnClose = None))"
      unfolding trace_def outcome_def rv
      by (auto simp add: cjm_after_def split: option.splits settled.splits)
  qed
  from pst_inv_exec[of props0 ins]
  have c: "snd (pst_exec props0 ins) = [] \<longrightarrow> \<not> loading (fst (pst_exec props0 ins))"
    by (simp add: pst_inv_def)
  from cjm_inv_exec[of cins]
  have d: "snd (cjm_exec cins) = [] \<longrightarrow> \<not> busy (fst (cjm_exec cins))"
    by (simp add: cjm_inv_def)
  show ?thesis
    by (rule conjI[OF a conjI[OF b conjI[OF c d]]])
qed

theorem busy_flag_brackets_the_call_witness:
  "''paid'' \<noteq> currentStatus example_tracker
   \<and> answer_all Rejected (OnUpdateStatus ''paid'') \<noteq> None
   \<and> last (trace (answer_all Rejected) (handleUpdateStatus example_tracker ''paid''))
       = SetLoading False
   \<and> selectedReason (fst (cjm_exec example_other_filled)) = Some ''other''
   \<and> truthy ''other''
   \<and> truthy (trim (otherReason (fst (cjm_exec example_other_filled))))
   \<and> outcome (answer_all Rejected)
        (handleCancel example_modal (fst (cjm_exec example_other_filled)) example_now)
       \<noteq> Pending
   \<and> last (trace (answer_all Rejected)
        (handleCancel example_modal (fst (cjm_exec example_other_filled)) example_now))
       = SetLoading False
   \<and> snd (pst_exec example_tracker
             [PressStatus example_tracker ''paid'', SettleUpdate 0 Rejected]) = []
   \<and> \<not> loading (fst (pst_exec example_tracker
             [PressStatus example_tracker ''paid'', SettleUpdate 0 Rejected]))
   \<and> snd (cjm_exec (example_cost_selected @
             [PressConfirm example_modal example_now, SettleCancel 0 Resolved Resolved])) = []
   \<and> \<not> busy (fst (cjm_exec (example_cost_selected @
             [PressConfirm example_modal example_now, SettleCancel 0 Resolved Resolved])))"
proof -
  have h: "''paid'' \<noteq> currentStatus example_tracker"
    by (simp add: example_tracker_def)
  have s: "answer_all Rejected (OnUpdateStatus ''paid'') \<noteq> None"
    by (simp add: answer_all_def)
  have v1: "selectedReason (fst (cjm_exec example_other_filled)) = Some ''other''"
    by (simp add: example_other_filled_state)
  have v2: "truthy ''other''"
    by (simp add: truthy_def)
  have v3: "truthy (trim (otherReason (fst (cjm_exec example_other_filled))))"
    by (simp add: example_other_filled_state trim_examples truthy_def)
  from v1 v2 v3
  have v: "selectedReason (fst (cjm_exec example_other_filled)) = Some ''other''
      \<and> truthy ''other''
      \<and> (''other'' = ''other''
           \<longrightarrow> truthy (trim (otherReason (fst (cjm_exec example_other_filled)))))"
    by simp
  have p: "outcome (answer_all Rejected)
        (handleCancel example_modal (fst (cjm_exec example_other_filled)) example_now)
       \<noteq> Pending"
    by (simp add: outcome_def run_handleCancel_valid[OF v1 v2] v3 answer_all_def)
  have i1: "snd (pst_exec example_tracker
             [PressStatus example_tracker ''paid'', SettleUpdate 0 Rejected]) = []"
    by (simp add: example_update_rejected)
  have i2: "snd (cjm_exec (example_cost_selected @
             [PressConfirm example_modal example_now, SettleCancel 0 Resolved Resolved])) = []"
    by (simp add: example_cancel_resolved)
  note t = busy_flag_brackets_the_call
             [where newStatus = "''paid''" and props = example_tracker
                and env = "answer_all Rejected" and st = "pst_initial example_tracker"
                and cst = "fst (cjm_exec example_other_filled)" and r = "''other''"
                and cprops = example_modal and now = example_now
                and ?props0.0 = example_tracker
                and ins = "[PressStatus example_tracker ''paid'', SettleUpdate 0 Rejected]"
                and cins = "example_cost_selected @
                  [PressConfirm example_modal example_now, SettleCancel 0 Resolved Resolved]"]
  note c1 = t[THEN conjunct1, THEN mp, OF h, THEN conjunct2, THEN conjunct2, THEN mp, OF s,
              THEN conjunct1]
  note c2 = t[THEN conjunct2, THEN conjunct1, THEN mp, OF v, THEN conjunct2, THEN conjunct2,
              THEN conjunct1, THEN mp, OF p, THEN conjunct1]
  note c3 = t[THEN conjunct2, THEN conjunct2, THEN conjunct1, THEN mp, OF i1]
  note c4 = t[THEN conjunct2, THEN conjunct2, THEN conjunct2, THEN mp, OF i2]
  show ?thesis
    by (rule conjI[OF h conjI[OF s conjI[OF c1 conjI[OF v1 conjI[OF v2 conjI[OF v3
          conjI[OF p conjI[OF c2 conjI[OF i1 conjI[OF c3 conjI[OF i2 c4]]]]]]]]]]])
qed

end
